theory Spec2Isabelle
  imports Main
begin

section \<open>Values shared by the whole module\<close>

definition SPARK_MASTER_PORT :: string where
  "SPARK_MASTER_PORT = ''7077''"

definition HDFS_MASTER_PORT :: string where
  "HDFS_MASTER_PORT = ''8020''"

text \<open>
  Failures of the module. \<open>UserError\<close> is what \<open>require\<close> of \<open>toil_lib\<close> raises when its
  expression is false, \<open>ExternalFailure\<close> is a failure raised by \<open>dockerCall\<close> or
  \<open>check_call\<close>, and the two remaining ones are the interpreter's own: a method looked up
  on \<open>None\<close> and \<open>extend\<close> applied to \<open>None\<close>.
\<close>

datatype error = UserError string | ExternalFailure | AttributeError | TypeError

definition require :: "bool \<Rightarrow> string \<Rightarrow> error + unit" where
  "require expression message = (if expression then Inr () else Inl (UserError message))"

subsection \<open>Formatting an integer with \<open>%s\<close>\<close>

definition digit_chars :: string where
  "digit_chars = ''0123456789''"

fun str_nat :: "nat \<Rightarrow> string" where
  "str_nat n = (if n < 10 then [digit_chars ! n]
                else str_nat (n div 10) @ [digit_chars ! (n mod 10)])"

declare str_nat.simps [simp del]

definition str_int :: "int \<Rightarrow> string" where
  "str_int i = (if i < 0 then CHR ''-'' # str_nat (nat (- i)) else str_nat (nat i))"

section \<open>The master address\<close>

text \<open>
  \<open>MasterAddress\<close> is a subclass of \<open>str\<close> with one extra attribute: \<open>nominal\<close> is the string
  value of the object itself, \<open>actual\<close> the attribute of that name. The constructor is
  modelled as the doctest of the class shows it (Python 2, where \<open>__init__\<close> of \<open>str\<close>
  accepts the argument): it stores the object itself in \<open>actual\<close>.
\<close>

record MasterAddress =
  nominal :: string
  actual :: string

definition MasterAddress_init :: "string \<Rightarrow> MasterAddress" where
  "MasterAddress_init master_ip = \<lparr>nominal = master_ip, actual = master_ip\<rparr>"

text \<open>
  The argument is optional (\<open>None\<close> by default). The source appends to the caller's list
  in place and returns that same list; the model returns its new contents.
\<close>

definition docker_parameters :: "MasterAddress \<Rightarrow> string list option \<Rightarrow> string list option" where
  "docker_parameters self dps =
     (if nominal self \<noteq> actual self then
        (let add_host_option = ''--add-host=spark-master:'' @ actual self
         in case dps of
              None \<Rightarrow> Some [add_host_option]
            | Some l \<Rightarrow> Some (l @ [add_host_option]))
      else dps)"

section \<open>Assembling the parameters of a submission\<close>

text \<open>
  The master address may be absent: \<open>if master_ip:\<close> is false for \<open>None\<close> and for the
  empty string, and \<open>'%s' % master_ip\<close> prints \<open>None\<close> as the word None.
\<close>

definition truthy_master :: "MasterAddress option \<Rightarrow> bool" where
  "truthy_master master_ip = (case master_ip of None \<Rightarrow> False | Some m \<Rightarrow> nominal m \<noteq> [])"

definition str_master :: "MasterAddress option \<Rightarrow> string" where
  "str_master master_ip = (case master_ip of None \<Rightarrow> ''None'' | Some m \<Rightarrow> nominal m)"

definition memory_message :: string where
  "memory_message =
     ''Either the memory setting must be defined or you must provide Spark configuration parameters.''"

definition make_parameters ::
  "MasterAddress option \<Rightarrow> string list \<Rightarrow> int option \<Rightarrow> string list \<Rightarrow> string list option
     \<Rightarrow> error + string list" where
  "make_parameters master_ip default_parameters memory arguments override_parameters =
     (case require ((override_parameters \<noteq> None \<or> memory \<noteq> None) \<and>
                    (override_parameters = None \<or> memory = None)) memory_message of
        Inl e \<Rightarrow> Inl e
      | Inr _ \<Rightarrow>
          (case (case memory of
                   Some m \<Rightarrow> Inr [''--conf'', ''spark.driver.memory='' @ str_int m @ ''g'',
                                  ''--conf'', ''spark.executor.memory='' @ str_int m @ ''g'']
                 | None \<Rightarrow> (case override_parameters of
                              None \<Rightarrow> Inl TypeError
                            | Some ov \<Rightarrow> Inr ([] @ ov))) of
             Inl e \<Rightarrow> Inl e
           | Inr parameters \<Rightarrow>
               (let parameters =
                      (if truthy_master master_ip then
                         parameters @
                           [''--master'',
                            ''spark://'' @ str_master master_ip @ '':'' @ SPARK_MASTER_PORT,
                            ''--conf'',
                            ''spark.hadoop.fs.default.name=hdfs://'' @ str_master master_ip
                              @ '':'' @ HDFS_MASTER_PORT]
                       else parameters);
                    parameters = parameters @ default_parameters;
                    parameters = parameters @ [''--''];
                    parameters = parameters @ arguments
                in Inr parameters)))"

section \<open>The external collaborators\<close>

text \<open>
  \<open>dockerCall\<close>, \<open>check_call\<close> and \<open>job.fileStore.logToMaster\<close> belong to other packages.
  A call of a tool function is modelled by what it returns or raises together with the
  trace of the external actions it started, in order. Whether a container run or a local
  process ends well is a parameter \<open>succeeds\<close> of every tool function; logging never
  fails. The job handle is only handed on to the collaborators and is left out.

  The options of a container run are a Python list whose elements are strings or, where
  the source puts a whole value returned by \<open>MasterAddress.docker_parameters\<close> into the
  list, that value.
\<close>

datatype docker_arg = Arg string | Nested "string list option"

datatype event =
    DockerCall string "string list" "docker_arg list"
  | CheckCall "string list"
  | LogToMaster string

type_synonym outcome = "(error + unit) \<times> event list"

definition dockerCall :: "(event \<Rightarrow> bool) \<Rightarrow> string \<Rightarrow> string list \<Rightarrow> docker_arg list \<Rightarrow> outcome" where
  "dockerCall succeeds tool parameters dockerParameters =
     (let ev = DockerCall tool parameters dockerParameters
      in (if succeeds ev then Inr () else Inl ExternalFailure, [ev]))"

definition check_call :: "(event \<Rightarrow> bool) \<Rightarrow> string list \<Rightarrow> outcome" where
  "check_call succeeds argv =
     (let ev = CheckCall argv
      in (if succeeds ev then Inr () else Inl ExternalFailure, [ev]))"

fun is_docker_call :: "event \<Rightarrow> bool" where
  "is_docker_call (DockerCall _ _ _) = True"
| "is_docker_call _ = False"

text \<open>\<open>os.path.join\<close> of two components, as \<open>posixpath\<close> computes it.\<close>

definition path_join :: "string \<Rightarrow> string \<Rightarrow> string" where
  "path_join a b =
     (if b \<noteq> [] \<and> hd b = CHR ''/'' then b
      else if a = [] \<or> last a = CHR ''/'' then a @ b
      else a @ ''/'' @ b)"

text \<open>Truth value and \<open>%s\<close> rendering of an optional string argument.\<close>

definition truthy_str :: "string option \<Rightarrow> bool" where
  "truthy_str s = (case s of None \<Rightarrow> False | Some v \<Rightarrow> v \<noteq> [])"

definition str_opt :: "string option \<Rightarrow> string" where
  "str_opt s = (case s of None \<Rightarrow> ''None'' | Some v \<Rightarrow> v)"

section \<open>Conductor\<close>

definition call_conductor ::
  "(event \<Rightarrow> bool) \<Rightarrow> MasterAddress option \<Rightarrow> string \<Rightarrow> string \<Rightarrow> int option
     \<Rightarrow> string list option \<Rightarrow> outcome" where
  "call_conductor succeeds master_ip src dst memory override_parameters =
     (let arguments = [''-C'', src, dst]
      in case master_ip of
           None \<Rightarrow> (Inl AttributeError, [])
         | Some m \<Rightarrow>
             (let docker_params = [Arg ''--log-driver'', Arg ''none'',
                                   Nested (docker_parameters m (Some [''--net=host'']))]
              in case make_parameters master_ip [] memory arguments override_parameters of
                   Inl e \<Rightarrow> (Inl e, [])
                 | Inr parameters \<Rightarrow>
                     dockerCall succeeds ''quay.io/ucsc_cgl/conductor'' parameters docker_params))"

section \<open>ADAM\<close>

definition adam_tool :: string where
  "adam_tool = ''quay.io/ucsc_cgl/adam:962-ehf--6e7085f8cac4b9a927dc9fb06b48007957256b80''"

definition call_adam ::
  "(event \<Rightarrow> bool) \<Rightarrow> MasterAddress option \<Rightarrow> string list \<Rightarrow> int option \<Rightarrow> string list option
     \<Rightarrow> bool \<Rightarrow> string option \<Rightarrow> outcome" where
  "call_adam succeeds master_ip arguments memory override_parameters run_local native_adam_path =
     (let master =
            (if run_local then [''--master'', ''local[*]'']
             else [''--master'',
                   ''spark://'' @ str_master master_ip @ '':'' @ SPARK_MASTER_PORT,
                   ''--conf'',
                   ''spark.hadoop.fs.default.name=hdfs://'' @ str_master master_ip
                     @ '':'' @ HDFS_MASTER_PORT]);
          default_params = master @
            [''--conf'', ''spark.driver.maxResultSize=0'',
             ''--conf'', ''spark.storage.memoryFraction=0.3'',
             ''--conf'', ''spark.storage.unrollFraction=0.1'',
             ''--conf'', ''spark.network.timeout=300s'']
      in case native_adam_path of
           None \<Rightarrow>
             (case master_ip of
                None \<Rightarrow> (Inl AttributeError, [])
              | Some m \<Rightarrow>
                  (let docker_params = [Arg ''--log-driver'', Arg ''none'',
                                        Nested (docker_parameters m (Some [''--net=host'']))]
                   in case make_parameters master_ip default_params memory arguments
                             override_parameters of
                        Inl e \<Rightarrow> (Inl e, [])
                      | Inr parameters \<Rightarrow>
                          dockerCall succeeds adam_tool parameters docker_params))
         | Some path \<Rightarrow>
             check_call succeeds
               ([path_join path ''bin/adam-submit''] @ default_params @ arguments))"

section \<open>The tools that accept cloud credentials\<close>

definition secret_message :: string where
  "secret_message = ''If AWS access key is passed, secret key must be defined''"

text \<open>The blocks of literals that the three functions below repeat word for word.\<close>

definition s3a_defaults :: "string list" where
  "s3a_defaults =
     [''--conf'', ''spark.driver.maxResultSize=0'',
      ''--conf'', ''spark.hadoop.hadoopbam.bam.enable-bai-splitter=true'',
      ''--packages'',
      ''com.amazonaws:aws-java-sdk-pom:1.10.34,org.apache.hadoop:hadoop-aws:2.7.4'',
      ''--conf'', ''spark.hadoop.fs.s3a.impl=org.apache.hadoop.fs.s3a.S3AFileSystem'']"

definition aws_env :: "string option \<Rightarrow> string option \<Rightarrow> string list" where
  "aws_env aws_access_key_id aws_secret_access_key =
     [''-e'', ''AWS_ACCESS_KEY_ID='' @ str_opt aws_access_key_id,
      ''-e'', ''AWS_SECRET_ACCESS_KEY='' @ str_opt aws_secret_access_key]"

definition aws_scheme_conf :: "string option \<Rightarrow> string option \<Rightarrow> string \<Rightarrow> string list" where
  "aws_scheme_conf aws_access_key_id aws_secret_access_key scheme =
     [''--conf'',
      ''spark.hadoop.fs.'' @ scheme @ ''.awsAccessKeyId='' @ str_opt aws_access_key_id,
      ''--conf'',
      ''spark.hadoop.fs.'' @ scheme @ ''.awsSecretAccessKey='' @ str_opt aws_secret_access_key]"

definition aws_key_conf :: "string option \<Rightarrow> string option \<Rightarrow> string list" where
  "aws_key_conf aws_access_key_id aws_secret_access_key =
     [''--conf'', ''spark.hadoop.fs.s3a.access.key='' @ str_opt aws_access_key_id,
      ''--conf'', ''spark.hadoop.fs.s3a.secret.key='' @ str_opt aws_secret_access_key,
      ''--conf'', ''spark.executorEnv.AWS_ACCESS_KEY_ID='' @ str_opt aws_access_key_id,
      ''--conf'',
      ''spark.executorEnv.AWS_SECRET_ACCESS_KEY='' @ str_opt aws_secret_access_key]"

definition deca_tool :: string where
  "deca_tool = ''quay.io/ucsc_cgl/deca:0.1.0--7d13833a1220001481c4de0489e893c93ee3310f''"

definition mango_tool :: string where
  "mango_tool = ''quay.io/ucsc_cgl/mango:latest''"

definition spark_tools_module :: string where
  "spark_tools_module = ''bdgenomics.workflows.tools.spark_tools''"

definition call_deca ::
  "(event \<Rightarrow> bool) \<Rightarrow> MasterAddress option \<Rightarrow> string list \<Rightarrow> int option \<Rightarrow> string list option
     \<Rightarrow> string option \<Rightarrow> bool \<Rightarrow> string option \<Rightarrow> string option \<Rightarrow> outcome" where
  "call_deca succeeds master_ip arguments memory override_parameters work_dir run_local
       aws_access_key_id aws_secret_access_key =
     (let master = (if run_local then [''--master'', ''local[*]''] else []);
          default_params = master @ s3a_defaults;
          docker_params = [''--log-driver'', ''none'', ''--net=host'']
      in case (if truthy_str aws_access_key_id then
                 (case require (truthy_str aws_secret_access_key) secret_message of
                    Inl e \<Rightarrow> Inl e
                  | Inr _ \<Rightarrow>
                      Inr (docker_params @ aws_env aws_access_key_id aws_secret_access_key,
                           default_params @
                             [''--packages'',
                              ''com.amazonaws:aws-java-sdk-pom:1.10.34,org.apache.hadoop:hadoop-aws:2.7.4'',
                              ''--conf'',
                              ''spark.hadoop.fs.s3a.impl=org.apache.hadoop.fs.s3a.S3AFileSystem'']
                             @ concat (map (aws_scheme_conf aws_access_key_id aws_secret_access_key)
                                         [''s3'', ''s3n''])
                             @ aws_key_conf aws_access_key_id aws_secret_access_key))
               else Inr (docker_params, default_params)) of
           Inl e \<Rightarrow> (Inl e, [])
         | Inr (docker_params, default_params) \<Rightarrow>
             (let docker_params =
                    (if truthy_str work_dir
                     then docker_params @ [''-v'', str_opt work_dir @ '':/data'']
                     else docker_params)
              in case make_parameters master_ip default_params memory arguments
                        override_parameters of
                   Inl e \<Rightarrow> (Inl e, [])
                 | Inr parameters \<Rightarrow>
                     dockerCall succeeds deca_tool parameters (map Arg docker_params)))"

text \<open>
  The two Mango functions also take \<open>host\<close>, which neither of them reads; it is left out.
  In the browser the container run stands inside \<open>try\<close> with a bare \<open>except\<close>.
\<close>

definition call_mango_browser ::
  "(event \<Rightarrow> bool) \<Rightarrow> MasterAddress option \<Rightarrow> string list \<Rightarrow> int \<Rightarrow> int option
     \<Rightarrow> string list option \<Rightarrow> string option \<Rightarrow> bool \<Rightarrow> bool \<Rightarrow> string option \<Rightarrow> string option
     \<Rightarrow> outcome" where
  "call_mango_browser succeeds master_ip arguments port memory override_parameters work_dir
       run_local run_mac aws_access_key_id aws_secret_access_key =
     (let master = (if run_local then [''--master'', ''local[*]''] else []);
          default_params = master @ s3a_defaults;
          docker_params = [];
          docker_params =
            (if \<not> run_mac then docker_params @ [''--net=host'']
             else (let endpoint = str_int port @ '':8080''
                   in docker_params @ [''-p'', endpoint]))
      in case (if truthy_str aws_access_key_id then
                 (case require (truthy_str aws_secret_access_key) secret_message of
                    Inl e \<Rightarrow> Inl e
                  | Inr _ \<Rightarrow>
                      Inr (docker_params @ aws_env aws_access_key_id aws_secret_access_key,
                           default_params @
                             [''--conf'',
                              ''spark.hadoop.fs.s3a.impl=org.apache.hadoop.fs.s3a.S3AFileSystem'']
                             @ concat (map (aws_scheme_conf aws_access_key_id aws_secret_access_key)
                                         [''s3'', ''s3n''])
                             @ aws_key_conf aws_access_key_id aws_secret_access_key))
               else Inr (docker_params, default_params)) of
           Inl e \<Rightarrow> (Inl e, [])
         | Inr (docker_params, default_params) \<Rightarrow>
             (let docker_params =
                    (if truthy_str work_dir
                     then docker_params @ [''-v'', str_opt work_dir @ '':/data'']
                     else docker_params)
              in case make_parameters master_ip default_params memory arguments
                        override_parameters of
                   Inl e \<Rightarrow> (Inl e, [])
                 | Inr parameters \<Rightarrow>
                     (let logged = [LogToMaster ''Starting the merge sort'',
                                    LogToMaster spark_tools_module]
                      in case dockerCall succeeds mango_tool parameters (map Arg docker_params) of
                           (Inl _, tr) \<Rightarrow> (Inr (), logged @ tr @ [LogToMaster ''docker exited''])
                         | (Inr _, tr) \<Rightarrow> (Inr (), logged @ tr))))"

definition call_mango_notebook ::
  "(event \<Rightarrow> bool) \<Rightarrow> MasterAddress option \<Rightarrow> string list \<Rightarrow> int \<Rightarrow> int option
     \<Rightarrow> string list option \<Rightarrow> string option \<Rightarrow> bool \<Rightarrow> bool \<Rightarrow> string option \<Rightarrow> string option
     \<Rightarrow> outcome" where
  "call_mango_notebook succeeds master_ip arguments port memory override_parameters work_dir
       run_local run_mac aws_access_key_id aws_secret_access_key =
     (let master = (if run_local then [''--master'', ''local[*]''] else []);
          default_params = master @ s3a_defaults;
          docker_params = [];
          docker_params =
            (if \<not> run_mac then docker_params @ [''--net=host'']
             else (let endpoint = str_int port @ '':8888''
                   in docker_params @ [''-p'', endpoint]));
          docker_params = docker_params @ [''--entrypoint=/home/mango/bin/mango-notebook'']
      in case (if truthy_str aws_access_key_id then
                 (case require (truthy_str aws_secret_access_key) secret_message of
                    Inl e \<Rightarrow> Inl e
                  | Inr _ \<Rightarrow>
                      Inr (docker_params @ aws_env aws_access_key_id aws_secret_access_key,
                           default_params @
                             [''--conf'',
                              ''spark.hadoop.fs.s3a.impl=org.apache.hadoop.fs.s3a.S3AFileSystem'']
                             @ concat (map (aws_scheme_conf aws_access_key_id aws_secret_access_key)
                                         [''s3'', ''s3n''])
                             @ aws_key_conf aws_access_key_id aws_secret_access_key))
               else Inr (docker_params, default_params)) of
           Inl e \<Rightarrow> (Inl e, [])
         | Inr (docker_params, default_params) \<Rightarrow>
             (let docker_params =
                    (if truthy_str work_dir
                     then docker_params @ [''-v'', str_opt work_dir @ '':/data'']
                     else docker_params)
              in case make_parameters master_ip default_params memory arguments
                        override_parameters of
                   Inl e \<Rightarrow> (Inl e, [])
                 | Inr parameters \<Rightarrow>
                     dockerCall succeeds mango_tool parameters (map Arg docker_params)))"

section \<open>Reading a trace\<close>

text \<open>The parameters and the container options of every container run of a trace, in order.\<close>

fun docker_calls :: "event list \<Rightarrow> (string list \<times> docker_arg list) list" where
  "docker_calls [] = []"
| "docker_calls (DockerCall tool parameters dockerParameters # tr) =
     (parameters, dockerParameters) # docker_calls tr"
| "docker_calls (_ # tr) = docker_calls tr"

text \<open>Some container run of the trace ended in failure.\<close>

definition docker_failed :: "(event \<Rightarrow> bool) \<Rightarrow> event list \<Rightarrow> bool" where
  "docker_failed succeeds tr = list_ex (\<lambda>ev. is_docker_call ev \<and> \<not> succeeds ev) tr"

section \<open>Facts about the assembler\<close>

lemma str_int_4: "str_int 4 = ''4''"
  by (simp add: str_int_def str_nat.simps digit_chars_def)

lemma str_int_8: "str_int 8 = ''8''"
  by (simp add: str_int_def str_nat.simps digit_chars_def)

lemma make_parameters_none_none:
  "make_parameters master_ip default_parameters None arguments None
     = Inl (UserError memory_message)"
  by (simp add: make_parameters_def require_def)

lemma make_parameters_some_some:
  "make_parameters master_ip default_parameters (Some g) arguments (Some ov)
     = Inl (UserError memory_message)"
  by (simp add: make_parameters_def require_def)

lemma make_parameters_memory:
  "make_parameters master_ip default_parameters (Some g) arguments None =
     Inr ([''--conf'', ''spark.driver.memory='' @ str_int g @ ''g'',
           ''--conf'', ''spark.executor.memory='' @ str_int g @ ''g'']
          @ (if truthy_master master_ip then
               [''--master'', ''spark://'' @ str_master master_ip @ '':7077'',
                ''--conf'',
                ''spark.hadoop.fs.default.name=hdfs://'' @ str_master master_ip @ '':8020'']
             else [])
          @ default_parameters @ [''--''] @ arguments)"
  by (simp add: make_parameters_def require_def SPARK_MASTER_PORT_def HDFS_MASTER_PORT_def)

lemma make_parameters_override:
  "make_parameters master_ip default_parameters None arguments (Some ov) =
     Inr (ov
          @ (if truthy_master master_ip then
               [''--master'', ''spark://'' @ str_master master_ip @ '':7077'',
                ''--conf'',
                ''spark.hadoop.fs.default.name=hdfs://'' @ str_master master_ip @ '':8020'']
             else [])
          @ default_parameters @ [''--''] @ arguments)"
  by (simp add: make_parameters_def require_def SPARK_MASTER_PORT_def HDFS_MASTER_PORT_def)

lemma make_parameters_invalid:
  "(memory = None) = (override_parameters = None) \<Longrightarrow>
     make_parameters master_ip default_parameters memory arguments override_parameters
       = Inl (UserError memory_message)"
  by (cases memory; cases override_parameters)
     (simp_all add: make_parameters_none_none make_parameters_some_some)

lemma make_parameters_valid:
  "(memory = None) \<noteq> (override_parameters = None) \<Longrightarrow>
     \<exists>parameters. make_parameters master_ip default_parameters memory arguments
                     override_parameters = Inr parameters"
  by (cases memory; cases override_parameters)
     (simp_all add: make_parameters_memory make_parameters_override)

section \<open>Properties of the master address\<close>

text \<open>
  Claim C10. A master address built from any string, \<open>auto\<close> included, has that string as
  its value and an \<open>actual\<close> attribute equal to it, so \<open>docker_parameters\<close> hands back what
  it was given and adds no host alias.
\<close>

theorem fresh_master_address:
  "nominal (MasterAddress_init master_ip) = master_ip
   \<and> actual (MasterAddress_init master_ip) = nominal (MasterAddress_init master_ip)
   \<and> docker_parameters (MasterAddress_init master_ip) dps = dps"
  by (simp add: MasterAddress_init_def docker_parameters_def)

text \<open>
  With equal addresses and no list supplied, \<open>docker_parameters\<close> returns \<open>None\<close>: no list
  is created.
\<close>

theorem docker_parameters_unsupplied_counterexample:
  "docker_parameters (MasterAddress_init ''foo'') None = None"
  by (simp add: MasterAddress_init_def docker_parameters_def)

text \<open>
  Claim C4, amended. When the nominal and the actual address are equal,
  \<open>docker_parameters\<close> returns its argument as it is: the caller's list, or \<open>None\<close> when
  none was supplied. When they differ it returns the caller's list with exactly one option
  appended, \<open>--add-host=spark-master:\<close> followed by the actual address, or a new list holding
  only that option when none was supplied.
\<close>

theorem docker_parameters_result:
  "(nominal self = actual self \<longrightarrow> docker_parameters self dps = dps)
   \<and> (nominal self \<noteq> actual self \<longrightarrow>
        docker_parameters self dps =
          Some ((case dps of None \<Rightarrow> [] | Some l \<Rightarrow> l)
                @ [''--add-host=spark-master:'' @ actual self]))"
  by (simp add: docker_parameters_def split: option.split)

theorem docker_parameters_result_witness:
  "docker_parameters \<lparr>nominal = ''spark-master'', actual = ''spark-master''\<rparr>
       (Some [''--net=host'']) = Some [''--net=host'']
   \<and> docker_parameters \<lparr>nominal = ''spark-master'', actual = ''10.0.0.5''\<rparr>
       (Some [''--net=host'']) = Some [''--net=host'', ''--add-host=spark-master:10.0.0.5'']
   \<and> docker_parameters \<lparr>nominal = ''spark-master'', actual = ''10.0.0.5''\<rparr> None
       = Some [''--add-host=spark-master:10.0.0.5'']"
  using docker_parameters_result
          [of "\<lparr>nominal = ''spark-master'', actual = ''spark-master''\<rparr>" "Some [''--net=host'']"]
        docker_parameters_result
          [of "\<lparr>nominal = ''spark-master'', actual = ''10.0.0.5''\<rparr>" "Some [''--net=host'']"]
        docker_parameters_result
          [of "\<lparr>nominal = ''spark-master'', actual = ''10.0.0.5''\<rparr>" None]
  by simp

section \<open>Order of the assembled list\<close>

text \<open>
  For the leader \<open>node1\<close> and a memory of 8 the list starts with the memory entries, not
  with the entries addressed at the leader.
\<close>

theorem make_parameters_node1_counterexample:
  "make_parameters (Some (MasterAddress_init ''node1''))
       [''--conf'', ''spark.driver.maxResultSize=0''] (Some 8) [''transform''] None
     = Inr [''--conf'', ''spark.driver.memory=8g'', ''--conf'', ''spark.executor.memory=8g'',
            ''--master'', ''spark://node1:7077'',
            ''--conf'', ''spark.hadoop.fs.default.name=hdfs://node1:8020'',
            ''--conf'', ''spark.driver.maxResultSize=0'', ''--'', ''transform'']
   \<and> make_parameters (Some (MasterAddress_init ''node1''))
       [''--conf'', ''spark.driver.maxResultSize=0''] (Some 8) [''transform''] None
     \<noteq> Inr [''--master'', ''spark://node1:7077'',
            ''--conf'', ''spark.hadoop.fs.default.name=hdfs://node1:8020'',
            ''--conf'', ''spark.driver.memory=8g'', ''--conf'', ''spark.executor.memory=8g'',
            ''--conf'', ''spark.driver.maxResultSize=0'', ''--'', ''transform'']"
  by (simp add: make_parameters_memory str_int_8 truthy_master_def str_master_def
        MasterAddress_init_def)

text \<open>
  Claim C2, amended. For the leader address \<open>node1\<close> and memory 8, without overrides, the
  assembled list is the driver and executor memory entries for \<open>8g\<close>, then the connection
  target \<open>spark://node1:7077\<close> and the filesystem endpoint \<open>hdfs://node1:8020\<close>, then the
  default flags, then the separator, then the tool arguments, in that order.
\<close>

theorem make_parameters_node1_order:
  "make_parameters (Some \<lparr>nominal = ''node1'', actual = a\<rparr>) default_parameters (Some 8)
       arguments None
     = Inr ([''--conf'', ''spark.driver.memory=8g'', ''--conf'', ''spark.executor.memory=8g'']
            @ [''--master'', ''spark://node1:7077'',
               ''--conf'', ''spark.hadoop.fs.default.name=hdfs://node1:8020'']
            @ default_parameters @ [''--''] @ arguments)"
  by (simp add: make_parameters_memory str_int_8 truthy_master_def str_master_def)

theorem make_parameters_node1_order_witness:
  "make_parameters (Some \<lparr>nominal = ''node1'', actual = ''node1''\<rparr>)
       [''--conf'', ''spark.driver.maxResultSize=0''] (Some 8) [''transform''] None
     = Inr [''--conf'', ''spark.driver.memory=8g'', ''--conf'', ''spark.executor.memory=8g'',
            ''--master'', ''spark://node1:7077'',
            ''--conf'', ''spark.hadoop.fs.default.name=hdfs://node1:8020'',
            ''--conf'', ''spark.driver.maxResultSize=0'', ''--'', ''transform'']"
  using make_parameters_node1_order
          [of "''node1''" "[''--conf'', ''spark.driver.maxResultSize=0'']" "[''transform'']"]
  by simp

section \<open>Memory setting or overrides, never both\<close>

lemma call_conductor_invalid:
  "(memory = None) = (override_parameters = None) \<Longrightarrow>
     \<exists>e. call_conductor succeeds master_ip src dst memory override_parameters = (Inl e, [])"
  by (simp add: call_conductor_def make_parameters_invalid split: option.split)

lemma call_adam_invalid:
  "(memory = None) = (override_parameters = None) \<Longrightarrow>
     \<exists>e. call_adam succeeds master_ip arguments memory override_parameters run_local None
           = (Inl e, [])"
  by (simp add: call_adam_def make_parameters_invalid Let_def split: option.split)

lemma call_deca_invalid:
  "(memory = None) = (override_parameters = None) \<Longrightarrow>
     \<exists>e. call_deca succeeds master_ip arguments memory override_parameters work_dir run_local
             aws_access_key_id aws_secret_access_key = (Inl e, [])"
  by (simp add: call_deca_def make_parameters_invalid require_def Let_def)

lemma call_mango_browser_invalid:
  "(memory = None) = (override_parameters = None) \<Longrightarrow>
     \<exists>e. call_mango_browser succeeds master_ip arguments port memory override_parameters
             work_dir run_local run_mac aws_access_key_id aws_secret_access_key = (Inl e, [])"
  by (simp add: call_mango_browser_def make_parameters_invalid require_def Let_def)

lemma call_mango_notebook_invalid:
  "(memory = None) = (override_parameters = None) \<Longrightarrow>
     \<exists>e. call_mango_notebook succeeds master_ip arguments port memory override_parameters
             work_dir run_local run_mac aws_access_key_id aws_secret_access_key = (Inl e, [])"
  by (simp add: call_mango_notebook_def make_parameters_invalid require_def Let_def)

text \<open>
  Claim C1. The assembler fails with the error of \<open>require\<close> when the memory setting and
  the override parameters are both absent or both present, and returns a list whenever
  exactly one of them is present. In every tool function that calls the assembler the
  failure comes with an empty trace: no container run, local process or log entry was
  started before it. (With a native ADAM path \<open>call_adam\<close> never calls the assembler.)
\<close>

theorem make_parameters_exactly_one:
  "((memory = None) = (override_parameters = None) \<longrightarrow>
      make_parameters master_ip default_parameters memory arguments override_parameters
        = Inl (UserError memory_message)
      \<and> (\<exists>e. call_conductor succeeds master_ip src dst memory override_parameters = (Inl e, []))
      \<and> (\<exists>e. call_adam succeeds master_ip arguments memory override_parameters run_local None
                = (Inl e, []))
      \<and> (\<exists>e. call_deca succeeds master_ip arguments memory override_parameters work_dir
                run_local aws_access_key_id aws_secret_access_key = (Inl e, []))
      \<and> (\<exists>e. call_mango_browser succeeds master_ip arguments port memory override_parameters
                work_dir run_local run_mac aws_access_key_id aws_secret_access_key = (Inl e, []))
      \<and> (\<exists>e. call_mango_notebook succeeds master_ip arguments port memory override_parameters
                work_dir run_local run_mac aws_access_key_id aws_secret_access_key = (Inl e, [])))
   \<and> ((memory = None) \<noteq> (override_parameters = None) \<longrightarrow>
        (\<exists>parameters. make_parameters master_ip default_parameters memory arguments
                         override_parameters = Inr parameters))"
proof (intro conjI impI)
  assume inv: "(memory = None) = (override_parameters = None)"
  show "make_parameters master_ip default_parameters memory arguments override_parameters
          = Inl (UserError memory_message)"
    by (rule make_parameters_invalid [OF inv])
  show "\<exists>e. call_conductor succeeds master_ip src dst memory override_parameters = (Inl e, [])"
    by (rule call_conductor_invalid [OF inv])
  show "\<exists>e. call_adam succeeds master_ip arguments memory override_parameters run_local None
              = (Inl e, [])"
    by (rule call_adam_invalid [OF inv])
  show "\<exists>e. call_deca succeeds master_ip arguments memory override_parameters work_dir
              run_local aws_access_key_id aws_secret_access_key = (Inl e, [])"
    by (rule call_deca_invalid [OF inv])
  show "\<exists>e. call_mango_browser succeeds master_ip arguments port memory override_parameters
              work_dir run_local run_mac aws_access_key_id aws_secret_access_key = (Inl e, [])"
    by (rule call_mango_browser_invalid [OF inv])
  show "\<exists>e. call_mango_notebook succeeds master_ip arguments port memory override_parameters
              work_dir run_local run_mac aws_access_key_id aws_secret_access_key = (Inl e, [])"
    by (rule call_mango_notebook_invalid [OF inv])
next
  assume "(memory = None) \<noteq> (override_parameters = None)"
  then show "\<exists>parameters. make_parameters master_ip default_parameters memory arguments
                             override_parameters = Inr parameters"
    by (rule make_parameters_valid)
qed

theorem make_parameters_exactly_one_witness:
  "make_parameters None [] None [''x''] None = Inl (UserError memory_message)
   \<and> make_parameters None [] (Some 4) [''x''] (Some [''--conf'', ''a=b''])
       = Inl (UserError memory_message)
   \<and> (\<exists>e. call_conductor (\<lambda>_. True) (Some (MasterAddress_init ''node1'')) ''s'' ''d'' None None
             = (Inl e, []))
   \<and> (\<exists>parameters. make_parameters None [] (Some 4) [''x''] None = Inr parameters)
   \<and> (\<exists>parameters. make_parameters None [] None [''x''] (Some [''--conf'', ''a=b''])
                      = Inr parameters)"
  using make_parameters_exactly_one
          [where memory = None and override_parameters = None and master_ip = None
             and default_parameters = "[]" and arguments = "[''x'']"]
        make_parameters_exactly_one
          [where memory = None and override_parameters = None
             and master_ip = "Some (MasterAddress_init ''node1'')"
             and succeeds = "\<lambda>_. True" and src = "''s''" and dst = "''d''"]
        make_parameters_exactly_one
          [where memory = "Some 4" and override_parameters = "Some [''--conf'', ''a=b'']"
             and master_ip = None and default_parameters = "[]" and arguments = "[''x'']"]
        make_parameters_exactly_one
          [where memory = "Some 4" and override_parameters = None and master_ip = None
             and default_parameters = "[]" and arguments = "[''x'']"]
        make_parameters_exactly_one
          [where memory = None and override_parameters = "Some [''--conf'', ''a=b'']"
             and master_ip = None and default_parameters = "[]" and arguments = "[''x'']"]
  by simp

section \<open>The separator\<close>

text \<open>
  A tool argument equal to the separator is passed through, so the assembled list then
  holds the token twice.
\<close>

theorem make_parameters_separator_counterexample:
  "make_parameters None [] (Some 4) [''--'', ''x''] None
     = Inr [''--conf'', ''spark.driver.memory=4g'', ''--conf'', ''spark.executor.memory=4g'',
            ''--'', ''--'', ''x'']
   \<and> count_list (projr (make_parameters None [] (Some 4) [''--'', ''x''] None)) ''--'' = 2"
  by (simp add: make_parameters_memory str_int_4 truthy_master_def)

text \<open>
  Claim C3, amended. In every list the assembler returns, the separator it inserts is
  followed by exactly the tool arguments, in their original order, and they end the list.
  The token \<open>--\<close> occurs in the list once more than it occurs in the override parameters,
  the default flags and the tool arguments together; it occurs exactly once precisely
  when none of those contains it.
\<close>

theorem make_parameters_separator:
  assumes "make_parameters master_ip default_parameters memory arguments override_parameters
             = Inr parameters"
  shows "(\<exists>config. parameters = config @ [''--''] @ arguments)
         \<and> count_list parameters ''--'' =
             1 + count_list (case override_parameters of None \<Rightarrow> [] | Some ov \<Rightarrow> ov) ''--''
               + count_list default_parameters ''--'' + count_list arguments ''--''
         \<and> ((count_list parameters ''--'' = 1) =
              (''--'' \<notin> set (case override_parameters of None \<Rightarrow> [] | Some ov \<Rightarrow> ov)
               \<and> ''--'' \<notin> set default_parameters \<and> ''--'' \<notin> set arguments))"
proof (cases memory)
  case None
  then obtain ov where ov: "override_parameters = Some ov"
    using assms by (cases override_parameters) (simp_all add: make_parameters_none_none)
  have "parameters = (ov @ (if truthy_master master_ip then
               [''--master'', ''spark://'' @ str_master master_ip @ '':7077'',
                ''--conf'',
                ''spark.hadoop.fs.default.name=hdfs://'' @ str_master master_ip @ '':8020'']
             else []) @ default_parameters) @ [''--''] @ arguments"
    using assms None ov by (simp add: make_parameters_override)
  then show ?thesis
    using ov by (auto simp: count_list_0_iff)
next
  case (Some g)
  then have ov: "override_parameters = None"
    using assms by (cases override_parameters) (simp_all add: make_parameters_some_some)
  have "parameters = ([''--conf'', ''spark.driver.memory='' @ str_int g @ ''g'',
           ''--conf'', ''spark.executor.memory='' @ str_int g @ ''g'']
          @ (if truthy_master master_ip then
               [''--master'', ''spark://'' @ str_master master_ip @ '':7077'',
                ''--conf'',
                ''spark.hadoop.fs.default.name=hdfs://'' @ str_master master_ip @ '':8020'']
             else []) @ default_parameters) @ [''--''] @ arguments"
    using assms Some ov by (simp add: make_parameters_memory)
  then show ?thesis
    using ov by (auto simp: count_list_0_iff)
qed

theorem make_parameters_separator_witness:
  "(\<exists>config. [''--conf'', ''spark.driver.memory=4g'', ''--conf'', ''spark.executor.memory=4g'',
               ''-d'', ''--'', ''x'', ''y''] = config @ [''--''] @ [''x'', ''y''])
   \<and> count_list (projr (make_parameters None [''-d''] (Some 4) [''x'', ''y''] None)) ''--'' = 1"
proof -
  have h: "make_parameters None [''-d''] (Some 4) [''x'', ''y''] None
             = Inr [''--conf'', ''spark.driver.memory=4g'', ''--conf'',
                    ''spark.executor.memory=4g'', ''-d'', ''--'', ''x'', ''y'']"
    by (simp add: make_parameters_memory str_int_4 truthy_master_def)
  show ?thesis
    using make_parameters_separator [OF h] h by simp
qed

section \<open>Memory entries without a leader\<close>

text \<open>
  The default flags are copied into the list as they are. Those that \<open>call_deca\<close> and the
  Mango functions build for a local run start with \<open>--master local[*]\<close>, and the assembled
  list then holds a \<open>--master\<close> entry although no leader address was given, as the
  container run of \<open>call_deca\<close> with memory 4, \<open>run_local\<close> and no master address shows.
\<close>

theorem make_parameters_local_master_counterexample:
  "make_parameters None [''--master'', ''local[*]''] (Some 4) [''x''] None
     = Inr [''--conf'', ''spark.driver.memory=4g'', ''--conf'', ''spark.executor.memory=4g'',
            ''--master'', ''local[*]'', ''--'', ''x'']
   \<and> ''--master'' \<in> set (projr (make_parameters None [''--master'', ''local[*]''] (Some 4)
                                    [''x''] None))
   \<and> docker_calls (snd (call_deca (\<lambda>_. True) None [''x''] (Some 4) None None True None None))
       = [([''--conf'', ''spark.driver.memory=4g'', ''--conf'', ''spark.executor.memory=4g'',
            ''--master'', ''local[*]'',
            ''--conf'', ''spark.driver.maxResultSize=0'',
            ''--conf'', ''spark.hadoop.hadoopbam.bam.enable-bai-splitter=true'',
            ''--packages'',
            ''com.amazonaws:aws-java-sdk-pom:1.10.34,org.apache.hadoop:hadoop-aws:2.7.4'',
            ''--conf'', ''spark.hadoop.fs.s3a.impl=org.apache.hadoop.fs.s3a.S3AFileSystem'',
            ''--'', ''x''],
           [Arg ''--log-driver'', Arg ''none'', Arg ''--net=host''])]"
  by (simp add: make_parameters_memory str_int_4 truthy_master_def call_deca_def Let_def
        truthy_str_def dockerCall_def s3a_defaults_def)

text \<open>
  Claim C5, amended. For memory 4, no override parameters and no leader address (\<open>None\<close> or
  the empty string), the assembled list is the driver and executor memory entries set to
  \<open>4g\<close>, followed by the default flags, the separator and the tool arguments. The assembler
  adds no connection target of its own: \<open>--master\<close> is in the list only if the default flags
  or the tool arguments contain it.
\<close>

theorem make_parameters_memory4_no_leader:
  "\<exists>parameters.
      make_parameters None default_parameters (Some 4) arguments None = Inr parameters
    \<and> make_parameters (Some \<lparr>nominal = [], actual = a\<rparr>) default_parameters (Some 4) arguments
        None = Inr parameters
    \<and> parameters = [''--conf'', ''spark.driver.memory=4g'',
                     ''--conf'', ''spark.executor.memory=4g'']
                    @ default_parameters @ [''--''] @ arguments
    \<and> (''--master'' \<in> set parameters) =
        (''--master'' \<in> set default_parameters \<or> ''--master'' \<in> set arguments)"
  by (simp add: make_parameters_memory str_int_4 truthy_master_def)

theorem make_parameters_memory4_no_leader_witness:
  "make_parameters None [''--conf'', ''spark.driver.maxResultSize=0''] (Some 4) [''x''] None
     = Inr [''--conf'', ''spark.driver.memory=4g'', ''--conf'', ''spark.executor.memory=4g'',
            ''--conf'', ''spark.driver.maxResultSize=0'', ''--'', ''x'']
   \<and> ''--master'' \<notin> set (projr (make_parameters None [''--conf'', ''spark.driver.maxResultSize=0'']
                                    (Some 4) [''x''] None))"
  using make_parameters_memory4_no_leader
          [of "[''--conf'', ''spark.driver.maxResultSize=0'']" "[''x'']" "''''"]
  by auto

section \<open>What each tool function does, in one equation\<close>

lemma docker_failed_Nil: "docker_failed succeeds [] = False"
  by (simp add: docker_failed_def)

lemma dockerCall_failed:
  "docker_failed succeeds (snd (dockerCall succeeds tool ps dps))
     = (fst (dockerCall succeeds tool ps dps) = Inl ExternalFailure)"
  by (simp add: dockerCall_def docker_failed_def Let_def)

lemma docker_calls_dockerCall:
  "docker_calls (snd (dockerCall succeeds tool ps dps)) = [(ps, dps)]"
  by (simp add: dockerCall_def Let_def)

lemma call_conductor_propagates:
  "docker_failed succeeds (snd (call_conductor succeeds master_ip src dst memory
       override_parameters))
   \<Longrightarrow> fst (call_conductor succeeds master_ip src dst memory override_parameters)
         = Inl ExternalFailure"
  by (simp add: call_conductor_def docker_failed_Nil dockerCall_failed
        split: option.splits sum.splits)

lemma check_call_not_docker:
  "docker_failed succeeds (snd (check_call succeeds argv)) = False"
  by (simp add: check_call_def docker_failed_def Let_def)

lemma call_adam_propagates:
  "docker_failed succeeds (snd (call_adam succeeds master_ip arguments memory
       override_parameters run_local native_adam_path))
   \<longrightarrow> fst (call_adam succeeds master_ip arguments memory override_parameters run_local
              native_adam_path) = Inl ExternalFailure"
  by (cases run_local)
     (simp_all add: call_adam_def Let_def docker_failed_Nil dockerCall_failed
        check_call_not_docker split: option.split sum.split)

lemma call_deca_eq:
  "call_deca succeeds master_ip arguments memory override_parameters work_dir run_local
       aws_access_key_id aws_secret_access_key =
     (if truthy_str aws_access_key_id \<and> \<not> truthy_str aws_secret_access_key
      then (Inl (UserError secret_message), [])
      else case make_parameters master_ip
                  ((if run_local then [''--master'', ''local[*]''] else []) @ s3a_defaults
                   @ (if truthy_str aws_access_key_id then
                        [''--packages'',
                         ''com.amazonaws:aws-java-sdk-pom:1.10.34,org.apache.hadoop:hadoop-aws:2.7.4'',
                         ''--conf'',
                         ''spark.hadoop.fs.s3a.impl=org.apache.hadoop.fs.s3a.S3AFileSystem'']
                        @ aws_scheme_conf aws_access_key_id aws_secret_access_key ''s3''
                        @ aws_scheme_conf aws_access_key_id aws_secret_access_key ''s3n''
                        @ aws_key_conf aws_access_key_id aws_secret_access_key
                      else []))
                  memory arguments override_parameters of
             Inl e \<Rightarrow> (Inl e, [])
           | Inr ps \<Rightarrow>
               dockerCall succeeds deca_tool ps
                 (map Arg ([''--log-driver'', ''none'', ''--net=host'']
                           @ (if truthy_str aws_access_key_id
                              then aws_env aws_access_key_id aws_secret_access_key else [])
                           @ (if truthy_str work_dir
                              then [''-v'', str_opt work_dir @ '':/data''] else []))))"
  by (cases run_local; cases "truthy_str aws_access_key_id";
      cases "truthy_str aws_secret_access_key"; cases "truthy_str work_dir")
     (simp_all add: call_deca_def Let_def require_def split: sum.split)

lemma call_deca_propagates:
  "docker_failed succeeds (snd (call_deca succeeds master_ip arguments memory
       override_parameters work_dir run_local aws_access_key_id aws_secret_access_key))
   \<longrightarrow> fst (call_deca succeeds master_ip arguments memory override_parameters work_dir
              run_local aws_access_key_id aws_secret_access_key) = Inl ExternalFailure"
  by (simp add: call_deca_eq docker_failed_Nil dockerCall_failed split: sum.split)

lemma call_mango_notebook_eq:
  "call_mango_notebook succeeds master_ip arguments port memory override_parameters work_dir
       run_local run_mac aws_access_key_id aws_secret_access_key =
     (if truthy_str aws_access_key_id \<and> \<not> truthy_str aws_secret_access_key
      then (Inl (UserError secret_message), [])
      else case make_parameters master_ip
                  ((if run_local then [''--master'', ''local[*]''] else []) @ s3a_defaults
                   @ (if truthy_str aws_access_key_id then
                        [''--conf'',
                         ''spark.hadoop.fs.s3a.impl=org.apache.hadoop.fs.s3a.S3AFileSystem'']
                        @ aws_scheme_conf aws_access_key_id aws_secret_access_key ''s3''
                        @ aws_scheme_conf aws_access_key_id aws_secret_access_key ''s3n''
                        @ aws_key_conf aws_access_key_id aws_secret_access_key
                      else []))
                  memory arguments override_parameters of
             Inl e \<Rightarrow> (Inl e, [])
           | Inr ps \<Rightarrow>
               dockerCall succeeds mango_tool ps
                 (map Arg ((if \<not> run_mac then [''--net=host'']
                            else [''-p'', str_int port @ '':8888''])
                           @ [''--entrypoint=/home/mango/bin/mango-notebook'']
                           @ (if truthy_str aws_access_key_id
                              then aws_env aws_access_key_id aws_secret_access_key else [])
                           @ (if truthy_str work_dir
                              then [''-v'', str_opt work_dir @ '':/data''] else []))))"
  by (cases run_local; cases "truthy_str aws_access_key_id";
      cases "truthy_str aws_secret_access_key"; cases "truthy_str work_dir"; cases run_mac)
     (simp_all add: call_mango_notebook_def Let_def require_def split: sum.split)

lemma call_mango_notebook_propagates:
  "docker_failed succeeds (snd (call_mango_notebook succeeds master_ip arguments port memory
       override_parameters work_dir run_local run_mac aws_access_key_id
       aws_secret_access_key))
   \<longrightarrow> fst (call_mango_notebook succeeds master_ip arguments port memory
              override_parameters work_dir run_local run_mac aws_access_key_id
              aws_secret_access_key) = Inl ExternalFailure"
  by (simp add: call_mango_notebook_eq docker_failed_Nil dockerCall_failed split: sum.split)

lemma browser_try_except:
  "(case dockerCall succeeds tool ps dps of
      (Inl _, tr) \<Rightarrow> (Inr (), logged @ tr @ [LogToMaster ''docker exited''])
    | (Inr _, tr) \<Rightarrow> (Inr (), logged @ tr))
   = (Inr (), logged @ [DockerCall tool ps dps]
              @ (if succeeds (DockerCall tool ps dps) then []
                 else [LogToMaster ''docker exited'']))"
  by (simp add: dockerCall_def Let_def)

lemma call_mango_browser_eq:
  "call_mango_browser succeeds master_ip arguments port memory override_parameters work_dir
       run_local run_mac aws_access_key_id aws_secret_access_key =
     (if truthy_str aws_access_key_id \<and> \<not> truthy_str aws_secret_access_key
      then (Inl (UserError secret_message), [])
      else case make_parameters master_ip
                  ((if run_local then [''--master'', ''local[*]''] else []) @ s3a_defaults
                   @ (if truthy_str aws_access_key_id then
                        [''--conf'',
                         ''spark.hadoop.fs.s3a.impl=org.apache.hadoop.fs.s3a.S3AFileSystem'']
                        @ aws_scheme_conf aws_access_key_id aws_secret_access_key ''s3''
                        @ aws_scheme_conf aws_access_key_id aws_secret_access_key ''s3n''
                        @ aws_key_conf aws_access_key_id aws_secret_access_key
                      else []))
                  memory arguments override_parameters of
             Inl e \<Rightarrow> (Inl e, [])
           | Inr ps \<Rightarrow>
               (let dps = map Arg ((if \<not> run_mac then [''--net=host'']
                                    else [''-p'', str_int port @ '':8080''])
                                   @ (if truthy_str aws_access_key_id
                                      then aws_env aws_access_key_id aws_secret_access_key
                                      else [])
                                   @ (if truthy_str work_dir
                                      then [''-v'', str_opt work_dir @ '':/data''] else []))
                in (Inr (),
                    [LogToMaster ''Starting the merge sort'', LogToMaster spark_tools_module,
                     DockerCall mango_tool ps dps]
                    @ (if succeeds (DockerCall mango_tool ps dps) then []
                       else [LogToMaster ''docker exited'']))))"
  by (cases run_local; cases "truthy_str aws_access_key_id";
      cases "truthy_str aws_secret_access_key"; cases "truthy_str work_dir"; cases run_mac)
     (simp_all add: call_mango_browser_def Let_def require_def browser_try_except
        split: sum.split)

lemma make_parameters_error:
  "make_parameters master_ip default_parameters memory arguments override_parameters = Inl e
     \<Longrightarrow> e = UserError memory_message"
  by (cases memory; cases override_parameters)
     (simp_all add: make_parameters_none_none make_parameters_some_some
        make_parameters_memory make_parameters_override)

lemma call_mango_browser_swallows:
  "fst (call_mango_browser succeeds master_ip arguments port memory override_parameters
          work_dir run_local run_mac aws_access_key_id aws_secret_access_key)
     \<noteq> Inl ExternalFailure
   \<and> (docker_failed succeeds (snd (call_mango_browser succeeds master_ip arguments port memory
          override_parameters work_dir run_local run_mac aws_access_key_id
          aws_secret_access_key))
        \<longrightarrow> fst (call_mango_browser succeeds master_ip arguments port memory
                   override_parameters work_dir run_local run_mac aws_access_key_id
                   aws_secret_access_key) = Inr ()
            \<and> last (snd (call_mango_browser succeeds master_ip arguments port memory
                   override_parameters work_dir run_local run_mac aws_access_key_id
                   aws_secret_access_key)) = LogToMaster ''docker exited'')"
  by (auto simp: call_mango_browser_eq docker_failed_def Let_def split: sum.split
        dest: make_parameters_error)

lemma truthy_str_Some: "truthy_str (Some v) = (v \<noteq> [])"
  by (simp add: truthy_str_def)

lemma str_opt_Some: "str_opt (Some v) = v"
  by (simp add: str_opt_def)

section \<open>Failures of the container run\<close>

text \<open>
  Claim C7. When the container run fails, \<open>call_conductor\<close>, \<open>call_adam\<close>, \<open>call_deca\<close> and
  \<open>call_mango_notebook\<close> fail with that failure: none of them catches it.
  \<open>call_mango_browser\<close> never fails with it: it catches the failure of its container run,
  logs \<open>docker exited\<close> as its last action and returns normally.
\<close>

theorem container_failure_propagates:
  "(docker_failed succeeds
       (snd (call_conductor succeeds master_ip src dst memory override_parameters))
     \<longrightarrow> fst (call_conductor succeeds master_ip src dst memory override_parameters)
           = Inl ExternalFailure)
   \<and> (docker_failed succeeds
         (snd (call_adam succeeds master_ip arguments memory override_parameters run_local
                 native_adam_path))
       \<longrightarrow> fst (call_adam succeeds master_ip arguments memory override_parameters run_local
                  native_adam_path) = Inl ExternalFailure)
   \<and> (docker_failed succeeds
         (snd (call_deca succeeds master_ip arguments memory override_parameters work_dir
                 run_local aws_access_key_id aws_secret_access_key))
       \<longrightarrow> fst (call_deca succeeds master_ip arguments memory override_parameters work_dir
                  run_local aws_access_key_id aws_secret_access_key) = Inl ExternalFailure)
   \<and> (docker_failed succeeds
         (snd (call_mango_notebook succeeds master_ip arguments port memory
                 override_parameters work_dir run_local run_mac aws_access_key_id
                 aws_secret_access_key))
       \<longrightarrow> fst (call_mango_notebook succeeds master_ip arguments port memory
                  override_parameters work_dir run_local run_mac aws_access_key_id
                  aws_secret_access_key) = Inl ExternalFailure)
   \<and> fst (call_mango_browser succeeds master_ip arguments port memory override_parameters
            work_dir run_local run_mac aws_access_key_id aws_secret_access_key)
       \<noteq> Inl ExternalFailure
   \<and> (docker_failed succeeds
         (snd (call_mango_browser succeeds master_ip arguments port memory
                 override_parameters work_dir run_local run_mac aws_access_key_id
                 aws_secret_access_key))
       \<longrightarrow> fst (call_mango_browser succeeds master_ip arguments port memory
                  override_parameters work_dir run_local run_mac aws_access_key_id
                  aws_secret_access_key) = Inr ()
           \<and> last (snd (call_mango_browser succeeds master_ip arguments port memory
                  override_parameters work_dir run_local run_mac aws_access_key_id
                  aws_secret_access_key)) = LogToMaster ''docker exited'')"
  using call_conductor_propagates [of succeeds master_ip src dst memory override_parameters]
    call_adam_propagates [of succeeds master_ip arguments memory override_parameters run_local
      native_adam_path]
    call_deca_propagates [of succeeds master_ip arguments memory override_parameters work_dir
      run_local aws_access_key_id aws_secret_access_key]
    call_mango_notebook_propagates [of succeeds master_ip arguments port memory
      override_parameters work_dir run_local run_mac aws_access_key_id aws_secret_access_key]
    call_mango_browser_swallows [of succeeds master_ip arguments port memory
      override_parameters work_dir run_local run_mac aws_access_key_id aws_secret_access_key]
  by (intro conjI impI) (erule (1) notE impE conjE | assumption | blast)+

theorem container_failure_propagates_witness:
  "fst (call_conductor (\<lambda>_. False) (Some (MasterAddress_init ''node1'')) ''s3://b/k''
          ''hdfs://node1/k'' (Some 4) None) = Inl ExternalFailure
   \<and> fst (call_adam (\<lambda>_. False) (Some (MasterAddress_init ''node1'')) [''transform'']
            (Some 4) None False None) = Inl ExternalFailure
   \<and> fst (call_deca (\<lambda>_. False) (Some (MasterAddress_init ''node1'')) [''transform'']
            (Some 4) None None False None None) = Inl ExternalFailure
   \<and> fst (call_mango_notebook (\<lambda>_. False) (Some (MasterAddress_init ''node1''))
            [''transform''] 8888 (Some 4) None None False False None None)
       = Inl ExternalFailure
   \<and> fst (call_mango_browser (\<lambda>_. False) (Some (MasterAddress_init ''node1''))
            [''transform''] 8888 (Some 4) None None False False None None) = Inr ()
   \<and> last (snd (call_mango_browser (\<lambda>_. False) (Some (MasterAddress_init ''node1''))
            [''transform''] 8888 (Some 4) None None False False None None))
       = LogToMaster ''docker exited''"
proof -
  let ?m = "Some (MasterAddress_init ''node1'')"
  have 1: "docker_failed (\<lambda>_. False)
             (snd (call_conductor (\<lambda>_. False) ?m ''s3://b/k'' ''hdfs://node1/k'' (Some 4) None))"
    by (simp add: call_conductor_def make_parameters_memory dockerCall_def docker_failed_def)
  have 2: "docker_failed (\<lambda>_. False)
             (snd (call_adam (\<lambda>_. False) ?m [''transform''] (Some 4) None False None))"
    by (simp add: call_adam_def make_parameters_memory dockerCall_def docker_failed_def)
  have 3: "docker_failed (\<lambda>_. False)
             (snd (call_deca (\<lambda>_. False) ?m [''transform''] (Some 4) None None False None None))"
    by (simp add: call_deca_eq make_parameters_memory dockerCall_def docker_failed_def
          truthy_str_def)
  have 4: "docker_failed (\<lambda>_. False)
             (snd (call_mango_notebook (\<lambda>_. False) ?m [''transform''] 8888 (Some 4) None None
                     False False None None))"
    by (simp add: call_mango_notebook_eq make_parameters_memory dockerCall_def
          docker_failed_def truthy_str_def)
  have 5: "docker_failed (\<lambda>_. False)
             (snd (call_mango_browser (\<lambda>_. False) ?m [''transform''] 8888 (Some 4) None None
                     False False None None))"
    by (simp add: call_mango_browser_eq make_parameters_memory docker_failed_def
          truthy_str_def)
  show ?thesis
    using 1 2 3 4 5
      container_failure_propagates
        [where succeeds = "\<lambda>_. False" and master_ip = ?m and src = "''s3://b/k''"
           and dst = "''hdfs://node1/k''" and memory = "Some 4"
           and override_parameters = None and arguments = "[''transform'']"
           and run_local = False and native_adam_path = None and work_dir = None
           and aws_access_key_id = None and aws_secret_access_key = None
           and port = 8888 and run_mac = False]
    by blast
qed

section \<open>The container options of Conductor and ADAM\<close>

lemma docker_parameters_net_host:
  "docker_parameters m (Some [''--net=host''])
     = Some ([''--net=host'']
             @ (if nominal m \<noteq> actual m then [''--add-host=spark-master:'' @ actual m]
                else []))"
  by (simp add: docker_parameters_def)

lemma call_conductor_docker_calls:
  "docker_calls (snd (call_conductor succeeds (Some m) src dst memory override_parameters))
     = (case make_parameters (Some m) [] memory [''-C'', src, dst] override_parameters of
          Inl e \<Rightarrow> []
        | Inr ps \<Rightarrow> [(ps, [Arg ''--log-driver'', Arg ''none'',
                         Nested (docker_parameters m (Some [''--net=host'']))])])"
  by (simp add: call_conductor_def docker_calls_dockerCall split: sum.split)

lemma call_adam_docker_calls:
  "docker_calls (snd (call_adam succeeds (Some m) arguments memory override_parameters
                        run_local None))
     = (case make_parameters (Some m)
               ((if run_local then [''--master'', ''local[*]'']
                 else [''--master'', ''spark://'' @ nominal m @ '':7077'', ''--conf'',
                       ''spark.hadoop.fs.default.name=hdfs://'' @ nominal m @ '':8020''])
                @ [''--conf'', ''spark.driver.maxResultSize=0'',
                   ''--conf'', ''spark.storage.memoryFraction=0.3'',
                   ''--conf'', ''spark.storage.unrollFraction=0.1'',
                   ''--conf'', ''spark.network.timeout=300s''])
               memory arguments override_parameters of
          Inl e \<Rightarrow> []
        | Inr ps \<Rightarrow> [(ps, [Arg ''--log-driver'', Arg ''none'',
                         Nested (docker_parameters m (Some [''--net=host'']))])])"
  by (cases run_local)
     (simp_all add: call_adam_def Let_def docker_calls_dockerCall str_master_def
        SPARK_MASTER_PORT_def HDFS_MASTER_PORT_def split: sum.split)

text \<open>
  Claim C8. In \<open>call_conductor\<close> and in the container path of \<open>call_adam\<close> the option list
  handed to the container run has three elements: \<open>--log-driver\<close>, \<open>none\<close> and, as one
  nested element, the whole value that \<open>master_ip.docker_parameters(["--net=host"])\<close>
  returned. The string \<open>--net=host\<close> is inside that nested value and is not an element of
  the option list itself. With a valid memory setting the container run does take place.
\<close>

theorem nested_docker_parameters:
  "(\<forall>call \<in> set (docker_calls (snd (call_conductor succeeds (Some m) src dst memory
                                        override_parameters)))
             \<union> set (docker_calls (snd (call_adam succeeds (Some m) arguments memory
                                          override_parameters run_local None))).
       snd call = [Arg ''--log-driver'', Arg ''none'',
                   Nested (docker_parameters m (Some [''--net=host'']))]
       \<and> Arg ''--net=host'' \<notin> set (snd call))
   \<and> ((memory = None) \<noteq> (override_parameters = None) \<longrightarrow>
        map snd (docker_calls (snd (call_conductor succeeds (Some m) src dst memory
                                      override_parameters)))
          = [[Arg ''--log-driver'', Arg ''none'',
              Nested (docker_parameters m (Some [''--net=host'']))]]
        \<and> map snd (docker_calls (snd (call_adam succeeds (Some m) arguments memory
                                        override_parameters run_local None)))
          = [[Arg ''--log-driver'', Arg ''none'',
              Nested (docker_parameters m (Some [''--net=host'']))]])
   \<and> docker_parameters m (Some [''--net=host''])
       = Some ([''--net=host'']
               @ (if nominal m \<noteq> actual m then [''--add-host=spark-master:'' @ actual m]
                  else []))"
proof (intro conjI impI ballI)
  fix call
  assume "call \<in> set (docker_calls (snd (call_conductor succeeds (Some m) src dst memory
                                        override_parameters)))
             \<union> set (docker_calls (snd (call_adam succeeds (Some m) arguments memory
                                          override_parameters run_local None)))"
  then show "snd call = [Arg ''--log-driver'', Arg ''none'',
                   Nested (docker_parameters m (Some [''--net=host'']))]"
    by (auto simp: call_conductor_docker_calls call_adam_docker_calls split: sum.splits)
  then show "Arg ''--net=host'' \<notin> set (snd call)"
    by simp
next
  assume v: "(memory = None) \<noteq> (override_parameters = None)"
  from make_parameters_valid [OF v]
  obtain ps where "make_parameters (Some m) [] memory [''-C'', src, dst] override_parameters
                     = Inr ps"
    by blast
  then show "map snd (docker_calls (snd (call_conductor succeeds (Some m) src dst memory
                                      override_parameters)))
          = [[Arg ''--log-driver'', Arg ''none'',
              Nested (docker_parameters m (Some [''--net=host'']))]]"
    by (simp add: call_conductor_docker_calls)
  from make_parameters_valid [OF v]
  obtain ps where "make_parameters (Some m)
               ((if run_local then [''--master'', ''local[*]'']
                 else [''--master'', ''spark://'' @ nominal m @ '':7077'', ''--conf'',
                       ''spark.hadoop.fs.default.name=hdfs://'' @ nominal m @ '':8020''])
                @ [''--conf'', ''spark.driver.maxResultSize=0'',
                   ''--conf'', ''spark.storage.memoryFraction=0.3'',
                   ''--conf'', ''spark.storage.unrollFraction=0.1'',
                   ''--conf'', ''spark.network.timeout=300s''])
               memory arguments override_parameters = Inr ps"
    by blast
  then show "map snd (docker_calls (snd (call_adam succeeds (Some m) arguments memory
                                        override_parameters run_local None)))
          = [[Arg ''--log-driver'', Arg ''none'',
              Nested (docker_parameters m (Some [''--net=host'']))]]"
    unfolding call_adam_docker_calls by simp
next
  show "docker_parameters m (Some [''--net=host''])
       = Some ([''--net=host'']
               @ (if nominal m \<noteq> actual m then [''--add-host=spark-master:'' @ actual m]
                  else []))"
    by (rule docker_parameters_net_host)
qed

theorem nested_docker_parameters_witness:
  "map snd (docker_calls (snd (call_conductor (\<lambda>_. True) (Some (MasterAddress_init ''node1''))
                                 ''s3://b/k'' ''hdfs://node1/k'' (Some 4) None)))
     = [[Arg ''--log-driver'', Arg ''none'', Nested (Some [''--net=host''])]]
   \<and> map snd (docker_calls (snd (call_adam (\<lambda>_. True) (Some (MasterAddress_init ''node1''))
                                   [''transform''] (Some 4) None False None)))
     = [[Arg ''--log-driver'', Arg ''none'', Nested (Some [''--net=host''])]]"
  using nested_docker_parameters
          [where succeeds = "\<lambda>_. True" and m = "MasterAddress_init ''node1''"
             and src = "''s3://b/k''" and dst = "''hdfs://node1/k''" and memory = "Some 4"
             and override_parameters = None and arguments = "[''transform'']"
             and run_local = False]
  by (simp add: MasterAddress_init_def)

text \<open>
  Claim C9. \<open>call_adam\<close> with \<open>run_local\<close> set, a non-empty master address, a valid memory
  setting and no native path hands the container run a parameter list that holds the pair
  \<open>--master\<close>, \<open>local[*]\<close> among the default flags and, before it, a \<open>--master\<close> entry for
  \<open>spark://<master_ip>:7077\<close> with its filesystem endpoint: the master address is not
  disregarded in local mode.
\<close>

theorem call_adam_local_keeps_master:
  "nominal m \<noteq> [] \<and> (memory = None) \<noteq> (override_parameters = None) \<longrightarrow>
     docker_calls (snd (call_adam succeeds (Some m) arguments memory override_parameters True
                          None))
       = [((case memory of
              Some g \<Rightarrow> [''--conf'', ''spark.driver.memory='' @ str_int g @ ''g'',
                         ''--conf'', ''spark.executor.memory='' @ str_int g @ ''g'']
            | None \<Rightarrow> (case override_parameters of None \<Rightarrow> [] | Some ov \<Rightarrow> ov))
           @ [''--master'', ''spark://'' @ nominal m @ '':7077'',
              ''--conf'', ''spark.hadoop.fs.default.name=hdfs://'' @ nominal m @ '':8020'']
           @ [''--master'', ''local[*]'']
           @ [''--conf'', ''spark.driver.maxResultSize=0'',
              ''--conf'', ''spark.storage.memoryFraction=0.3'',
              ''--conf'', ''spark.storage.unrollFraction=0.1'',
              ''--conf'', ''spark.network.timeout=300s'']
           @ [''--''] @ arguments,
           [Arg ''--log-driver'', Arg ''none'',
            Nested (docker_parameters m (Some [''--net=host'']))])]"
  by (cases memory; cases override_parameters)
     (simp_all add: call_adam_docker_calls make_parameters_memory make_parameters_override
        truthy_master_def str_master_def)

theorem call_adam_local_keeps_master_witness:
  "docker_calls (snd (call_adam (\<lambda>_. True) (Some (MasterAddress_init ''10.0.0.1''))
                        [''transform''] (Some 4) None True None))
     = [([''--conf'', ''spark.driver.memory=4g'', ''--conf'', ''spark.executor.memory=4g'',
          ''--master'', ''spark://10.0.0.1:7077'',
          ''--conf'', ''spark.hadoop.fs.default.name=hdfs://10.0.0.1:8020'',
          ''--master'', ''local[*]'',
          ''--conf'', ''spark.driver.maxResultSize=0'',
          ''--conf'', ''spark.storage.memoryFraction=0.3'',
          ''--conf'', ''spark.storage.unrollFraction=0.1'',
          ''--conf'', ''spark.network.timeout=300s'',
          ''--'', ''transform''],
         [Arg ''--log-driver'', Arg ''none'', Nested (Some [''--net=host''])])]"
  using call_adam_local_keeps_master
          [where succeeds = "\<lambda>_. True" and m = "MasterAddress_init ''10.0.0.1''"
             and arguments = "[''transform'']" and memory = "Some 4"
             and override_parameters = None]
  by (simp add: MasterAddress_init_def str_int_4 docker_parameters_def)

section \<open>Cloud credentials\<close>

lemma call_deca_keys:
  assumes "access \<noteq> []" and "secret \<noteq> []"
    and "(memory = None) \<noteq> (override_parameters = None)"
  shows "docker_calls (snd (call_deca succeeds master_ip arguments memory
                                override_parameters work_dir run_local (Some access)
                                (Some secret)))
             = [((case memory of
                    Some g \<Rightarrow> [''--conf'', ''spark.driver.memory='' @ str_int g @ ''g'',
                               ''--conf'', ''spark.executor.memory='' @ str_int g @ ''g'']
                  | None \<Rightarrow> (case override_parameters of None \<Rightarrow> [] | Some ov \<Rightarrow> ov))
                 @ (if truthy_master master_ip then
                      [''--master'', ''spark://'' @ str_master master_ip @ '':7077'',
                       ''--conf'',
                       ''spark.hadoop.fs.default.name=hdfs://'' @ str_master master_ip
                         @ '':8020'']
                    else [])
                 @ (if run_local then [''--master'', ''local[*]''] else [])
                 @ s3a_defaults
                 @ [''--packages'',
                    ''com.amazonaws:aws-java-sdk-pom:1.10.34,org.apache.hadoop:hadoop-aws:2.7.4'',
                    ''--conf'',
                    ''spark.hadoop.fs.s3a.impl=org.apache.hadoop.fs.s3a.S3AFileSystem'']
                 @ [''--conf'', ''spark.hadoop.fs.s3.awsAccessKeyId='' @ access,
                    ''--conf'', ''spark.hadoop.fs.s3.awsSecretAccessKey='' @ secret,
                    ''--conf'', ''spark.hadoop.fs.s3n.awsAccessKeyId='' @ access,
                    ''--conf'', ''spark.hadoop.fs.s3n.awsSecretAccessKey='' @ secret,
                    ''--conf'', ''spark.hadoop.fs.s3a.access.key='' @ access,
                    ''--conf'', ''spark.hadoop.fs.s3a.secret.key='' @ secret,
                    ''--conf'', ''spark.executorEnv.AWS_ACCESS_KEY_ID='' @ access,
                    ''--conf'', ''spark.executorEnv.AWS_SECRET_ACCESS_KEY='' @ secret]
                 @ [''--''] @ arguments,
                 map Arg ([''--log-driver'', ''none'', ''--net=host'']
                          @ [''-e'', ''AWS_ACCESS_KEY_ID='' @ access,
                             ''-e'', ''AWS_SECRET_ACCESS_KEY='' @ secret]
                          @ (if truthy_str work_dir
                             then [''-v'', str_opt work_dir @ '':/data''] else [])))]"
  using assms
  by (cases memory; cases override_parameters)
     (simp_all add: call_deca_eq make_parameters_memory make_parameters_override
        docker_calls_dockerCall truthy_str_Some str_opt_Some aws_env_def aws_scheme_conf_def
        aws_key_conf_def)

lemma call_mango_browser_keys:
  assumes "access \<noteq> []" and "secret \<noteq> []"
    and "(memory = None) \<noteq> (override_parameters = None)"
  shows "docker_calls (snd (call_mango_browser succeeds master_ip arguments port memory
                                override_parameters work_dir run_local run_mac (Some access)
                                (Some secret)))
             = [((case memory of
                    Some g \<Rightarrow> [''--conf'', ''spark.driver.memory='' @ str_int g @ ''g'',
                               ''--conf'', ''spark.executor.memory='' @ str_int g @ ''g'']
                  | None \<Rightarrow> (case override_parameters of None \<Rightarrow> [] | Some ov \<Rightarrow> ov))
                 @ (if truthy_master master_ip then
                      [''--master'', ''spark://'' @ str_master master_ip @ '':7077'',
                       ''--conf'',
                       ''spark.hadoop.fs.default.name=hdfs://'' @ str_master master_ip
                         @ '':8020'']
                    else [])
                 @ (if run_local then [''--master'', ''local[*]''] else [])
                 @ s3a_defaults
                 @ [''--conf'',
                    ''spark.hadoop.fs.s3a.impl=org.apache.hadoop.fs.s3a.S3AFileSystem'']
                 @ [''--conf'', ''spark.hadoop.fs.s3.awsAccessKeyId='' @ access,
                    ''--conf'', ''spark.hadoop.fs.s3.awsSecretAccessKey='' @ secret,
                    ''--conf'', ''spark.hadoop.fs.s3n.awsAccessKeyId='' @ access,
                    ''--conf'', ''spark.hadoop.fs.s3n.awsSecretAccessKey='' @ secret,
                    ''--conf'', ''spark.hadoop.fs.s3a.access.key='' @ access,
                    ''--conf'', ''spark.hadoop.fs.s3a.secret.key='' @ secret,
                    ''--conf'', ''spark.executorEnv.AWS_ACCESS_KEY_ID='' @ access,
                    ''--conf'', ''spark.executorEnv.AWS_SECRET_ACCESS_KEY='' @ secret]
                 @ [''--''] @ arguments,
                 map Arg ((if \<not> run_mac then [''--net=host'']
                           else [''-p'', str_int port @ '':8080''])
                          @ [''-e'', ''AWS_ACCESS_KEY_ID='' @ access,
                             ''-e'', ''AWS_SECRET_ACCESS_KEY='' @ secret]
                          @ (if truthy_str work_dir
                             then [''-v'', str_opt work_dir @ '':/data''] else [])))]"
  using assms
  by (cases memory; cases override_parameters)
     (simp_all add: call_mango_browser_eq Let_def make_parameters_memory make_parameters_override
        docker_calls_dockerCall truthy_str_Some str_opt_Some aws_env_def aws_scheme_conf_def
        aws_key_conf_def)

lemma call_mango_notebook_keys:
  assumes "access \<noteq> []" and "secret \<noteq> []"
    and "(memory = None) \<noteq> (override_parameters = None)"
  shows "docker_calls (snd (call_mango_notebook succeeds master_ip arguments port memory
                                override_parameters work_dir run_local run_mac (Some access)
                                (Some secret)))
             = [((case memory of
                    Some g \<Rightarrow> [''--conf'', ''spark.driver.memory='' @ str_int g @ ''g'',
                               ''--conf'', ''spark.executor.memory='' @ str_int g @ ''g'']
                  | None \<Rightarrow> (case override_parameters of None \<Rightarrow> [] | Some ov \<Rightarrow> ov))
                 @ (if truthy_master master_ip then
                      [''--master'', ''spark://'' @ str_master master_ip @ '':7077'',
                       ''--conf'',
                       ''spark.hadoop.fs.default.name=hdfs://'' @ str_master master_ip
                         @ '':8020'']
                    else [])
                 @ (if run_local then [''--master'', ''local[*]''] else [])
                 @ s3a_defaults
                 @ [''--conf'',
                    ''spark.hadoop.fs.s3a.impl=org.apache.hadoop.fs.s3a.S3AFileSystem'']
                 @ [''--conf'', ''spark.hadoop.fs.s3.awsAccessKeyId='' @ access,
                    ''--conf'', ''spark.hadoop.fs.s3.awsSecretAccessKey='' @ secret,
                    ''--conf'', ''spark.hadoop.fs.s3n.awsAccessKeyId='' @ access,
                    ''--conf'', ''spark.hadoop.fs.s3n.awsSecretAccessKey='' @ secret,
                    ''--conf'', ''spark.hadoop.fs.s3a.access.key='' @ access,
                    ''--conf'', ''spark.hadoop.fs.s3a.secret.key='' @ secret,
                    ''--conf'', ''spark.executorEnv.AWS_ACCESS_KEY_ID='' @ access,
                    ''--conf'', ''spark.executorEnv.AWS_SECRET_ACCESS_KEY='' @ secret]
                 @ [''--''] @ arguments,
                 map Arg ((if \<not> run_mac then [''--net=host'']
                           else [''-p'', str_int port @ '':8888''])
                          @ [''--entrypoint=/home/mango/bin/mango-notebook'']
                          @ [''-e'', ''AWS_ACCESS_KEY_ID='' @ access,
                             ''-e'', ''AWS_SECRET_ACCESS_KEY='' @ secret]
                          @ (if truthy_str work_dir
                             then [''-v'', str_opt work_dir @ '':/data''] else [])))]"
  using assms
  by (cases memory; cases override_parameters)
     (simp_all add: call_mango_notebook_eq make_parameters_memory make_parameters_override
        docker_calls_dockerCall truthy_str_Some str_opt_Some aws_env_def aws_scheme_conf_def
        aws_key_conf_def)

lemma call_deca_no_secret:
  "truthy_str aws_access_key_id \<and> \<not> truthy_str aws_secret_access_key \<Longrightarrow>
     call_deca succeeds master_ip arguments memory override_parameters work_dir run_local
       aws_access_key_id aws_secret_access_key = (Inl (UserError secret_message), [])"
  by (simp add: call_deca_eq)

lemma call_mango_browser_no_secret:
  "truthy_str aws_access_key_id \<and> \<not> truthy_str aws_secret_access_key \<Longrightarrow>
     call_mango_browser succeeds master_ip arguments port memory override_parameters work_dir
       run_local run_mac aws_access_key_id aws_secret_access_key
       = (Inl (UserError secret_message), [])"
  by (simp add: call_mango_browser_eq)

lemma call_mango_notebook_no_secret:
  "truthy_str aws_access_key_id \<and> \<not> truthy_str aws_secret_access_key \<Longrightarrow>
     call_mango_notebook succeeds master_ip arguments port memory override_parameters work_dir
       run_local run_mac aws_access_key_id aws_secret_access_key
       = (Inl (UserError secret_message), [])"
  by (simp add: call_mango_notebook_eq)

text \<open>
  Claim C6. In \<open>call_deca\<close>, \<open>call_mango_browser\<close> and \<open>call_mango_notebook\<close>, an access
  key (a non-empty string) without a secret key (\<open>None\<close> or the empty string) fails with the
  error of \<open>require\<close> and an empty trace: nothing external was started. With both keys and
  a valid memory setting there is exactly one container run; its options hold
  \<open>-e AWS_ACCESS_KEY_ID=<access>\<close> and \<open>-e AWS_SECRET_ACCESS_KEY=<secret>\<close>, and its assembled
  parameters hold, before the separator, the configuration entries that carry the two
  keys for \<open>s3\<close>, \<open>s3n\<close>, \<open>s3a\<close> and the executor environment.
\<close>

theorem credentials_contract:
  "(truthy_str aws_access_key_id \<and> \<not> truthy_str aws_secret_access_key \<longrightarrow>
      call_deca succeeds master_ip arguments memory override_parameters work_dir run_local
        aws_access_key_id aws_secret_access_key = (Inl (UserError secret_message), [])
      \<and> call_mango_browser succeeds master_ip arguments port memory override_parameters
          work_dir run_local run_mac aws_access_key_id aws_secret_access_key
          = (Inl (UserError secret_message), [])
      \<and> call_mango_notebook succeeds master_ip arguments port memory override_parameters
          work_dir run_local run_mac aws_access_key_id aws_secret_access_key
          = (Inl (UserError secret_message), []))
   \<and> (access \<noteq> [] \<and> secret \<noteq> [] \<and> (memory = None) \<noteq> (override_parameters = None) \<longrightarrow>
        (let env = [''-e'', ''AWS_ACCESS_KEY_ID='' @ access,
                    ''-e'', ''AWS_SECRET_ACCESS_KEY='' @ secret];
             conf = [''--conf'', ''spark.hadoop.fs.s3.awsAccessKeyId='' @ access,
                     ''--conf'', ''spark.hadoop.fs.s3.awsSecretAccessKey='' @ secret,
                     ''--conf'', ''spark.hadoop.fs.s3n.awsAccessKeyId='' @ access,
                     ''--conf'', ''spark.hadoop.fs.s3n.awsSecretAccessKey='' @ secret,
                     ''--conf'', ''spark.hadoop.fs.s3a.access.key='' @ access,
                     ''--conf'', ''spark.hadoop.fs.s3a.secret.key='' @ secret,
                     ''--conf'', ''spark.executorEnv.AWS_ACCESS_KEY_ID='' @ access,
                     ''--conf'', ''spark.executorEnv.AWS_SECRET_ACCESS_KEY='' @ secret];
             cfg = (case memory of
                      Some g \<Rightarrow> [''--conf'', ''spark.driver.memory='' @ str_int g @ ''g'',
                                 ''--conf'', ''spark.executor.memory='' @ str_int g @ ''g'']
                    | None \<Rightarrow> (case override_parameters of None \<Rightarrow> [] | Some ov \<Rightarrow> ov))
                   @ (if truthy_master master_ip then
                        [''--master'', ''spark://'' @ str_master master_ip @ '':7077'',
                         ''--conf'',
                         ''spark.hadoop.fs.default.name=hdfs://'' @ str_master master_ip
                           @ '':8020'']
                      else [])
                   @ (if run_local then [''--master'', ''local[*]''] else [])
                   @ s3a_defaults;
             impl = [''--conf'',
                     ''spark.hadoop.fs.s3a.impl=org.apache.hadoop.fs.s3a.S3AFileSystem''];
             vol = (if truthy_str work_dir then [''-v'', str_opt work_dir @ '':/data'']
                    else [])
         in docker_calls (snd (call_deca succeeds master_ip arguments memory
                                 override_parameters work_dir run_local (Some access)
                                 (Some secret)))
              = [(cfg @ [''--packages'',
                         ''com.amazonaws:aws-java-sdk-pom:1.10.34,org.apache.hadoop:hadoop-aws:2.7.4'']
                      @ impl @ conf @ [''--''] @ arguments,
                  map Arg ([''--log-driver'', ''none'', ''--net=host''] @ env @ vol))]
          \<and> docker_calls (snd (call_mango_browser succeeds master_ip arguments port memory
                                   override_parameters work_dir run_local run_mac
                                   (Some access) (Some secret)))
              = [(cfg @ impl @ conf @ [''--''] @ arguments,
                  map Arg ((if \<not> run_mac then [''--net=host'']
                            else [''-p'', str_int port @ '':8080''])
                           @ env @ vol))]
          \<and> docker_calls (snd (call_mango_notebook succeeds master_ip arguments port memory
                                   override_parameters work_dir run_local run_mac
                                   (Some access) (Some secret)))
              = [(cfg @ impl @ conf @ [''--''] @ arguments,
                  map Arg ((if \<not> run_mac then [''--net=host'']
                            else [''-p'', str_int port @ '':8888''])
                           @ [''--entrypoint=/home/mango/bin/mango-notebook'']
                           @ env @ vol))]))"
proof (intro conjI impI)
  assume h: "truthy_str aws_access_key_id \<and> \<not> truthy_str aws_secret_access_key"
  show "call_deca succeeds master_ip arguments memory override_parameters work_dir run_local
          aws_access_key_id aws_secret_access_key = (Inl (UserError secret_message), [])"
    by (rule call_deca_no_secret [OF h])
  show "call_mango_browser succeeds master_ip arguments port memory override_parameters
          work_dir run_local run_mac aws_access_key_id aws_secret_access_key
          = (Inl (UserError secret_message), [])"
    by (rule call_mango_browser_no_secret [OF h])
  show "call_mango_notebook succeeds master_ip arguments port memory override_parameters
          work_dir run_local run_mac aws_access_key_id aws_secret_access_key
          = (Inl (UserError secret_message), [])"
    by (rule call_mango_notebook_no_secret [OF h])
next
  assume h: "access \<noteq> [] \<and> secret \<noteq> [] \<and> (memory = None) \<noteq> (override_parameters = None)"
  then have a: "access \<noteq> []" and s: "secret \<noteq> []"
    and v: "(memory = None) \<noteq> (override_parameters = None)"
    by simp_all
  show "let env = [''-e'', ''AWS_ACCESS_KEY_ID='' @ access,
                    ''-e'', ''AWS_SECRET_ACCESS_KEY='' @ secret];
             conf = [''--conf'', ''spark.hadoop.fs.s3.awsAccessKeyId='' @ access,
                     ''--conf'', ''spark.hadoop.fs.s3.awsSecretAccessKey='' @ secret,
                     ''--conf'', ''spark.hadoop.fs.s3n.awsAccessKeyId='' @ access,
                     ''--conf'', ''spark.hadoop.fs.s3n.awsSecretAccessKey='' @ secret,
                     ''--conf'', ''spark.hadoop.fs.s3a.access.key='' @ access,
                     ''--conf'', ''spark.hadoop.fs.s3a.secret.key='' @ secret,
                     ''--conf'', ''spark.executorEnv.AWS_ACCESS_KEY_ID='' @ access,
                     ''--conf'', ''spark.executorEnv.AWS_SECRET_ACCESS_KEY='' @ secret];
             cfg = (case memory of
                      Some g \<Rightarrow> [''--conf'', ''spark.driver.memory='' @ str_int g @ ''g'',
                                 ''--conf'', ''spark.executor.memory='' @ str_int g @ ''g'']
                    | None \<Rightarrow> (case override_parameters of None \<Rightarrow> [] | Some ov \<Rightarrow> ov))
                   @ (if truthy_master master_ip then
                        [''--master'', ''spark://'' @ str_master master_ip @ '':7077'',
                         ''--conf'',
                         ''spark.hadoop.fs.default.name=hdfs://'' @ str_master master_ip
                           @ '':8020'']
                      else [])
                   @ (if run_local then [''--master'', ''local[*]''] else [])
                   @ s3a_defaults;
             impl = [''--conf'',
                     ''spark.hadoop.fs.s3a.impl=org.apache.hadoop.fs.s3a.S3AFileSystem''];
             vol = (if truthy_str work_dir then [''-v'', str_opt work_dir @ '':/data'']
                    else [])
         in docker_calls (snd (call_deca succeeds master_ip arguments memory
                                 override_parameters work_dir run_local (Some access)
                                 (Some secret)))
              = [(cfg @ [''--packages'',
                         ''com.amazonaws:aws-java-sdk-pom:1.10.34,org.apache.hadoop:hadoop-aws:2.7.4'']
                      @ impl @ conf @ [''--''] @ arguments,
                  map Arg ([''--log-driver'', ''none'', ''--net=host''] @ env @ vol))]
          \<and> docker_calls (snd (call_mango_browser succeeds master_ip arguments port memory
                                   override_parameters work_dir run_local run_mac
                                   (Some access) (Some secret)))
              = [(cfg @ impl @ conf @ [''--''] @ arguments,
                  map Arg ((if \<not> run_mac then [''--net=host'']
                            else [''-p'', str_int port @ '':8080''])
                           @ env @ vol))]
          \<and> docker_calls (snd (call_mango_notebook succeeds master_ip arguments port memory
                                   override_parameters work_dir run_local run_mac
                                   (Some access) (Some secret)))
              = [(cfg @ impl @ conf @ [''--''] @ arguments,
                  map Arg ((if \<not> run_mac then [''--net=host'']
                            else [''-p'', str_int port @ '':8888''])
                           @ [''--entrypoint=/home/mango/bin/mango-notebook'']
                           @ env @ vol))]"
    unfolding Let_def
    by (simp only: call_deca_keys [OF a s v] call_mango_browser_keys [OF a s v]
          call_mango_notebook_keys [OF a s v] append_assoc append.simps simp_thms)
qed

theorem credentials_contract_witness:
  "call_deca (\<lambda>_. True) None [''coverage''] (Some 4) None None True (Some ''AKIA'') None
     = (Inl (UserError secret_message), [])
   \<and> call_mango_browser (\<lambda>_. True) None [''coverage''] 8080 (Some 4) None None True False
       (Some ''AKIA'') None = (Inl (UserError secret_message), [])
   \<and> call_mango_notebook (\<lambda>_. True) None [''coverage''] 8080 (Some 4) None None True False
       (Some ''AKIA'') None = (Inl (UserError secret_message), [])
   \<and> docker_calls (snd (call_mango_notebook (\<lambda>_. True) None [''coverage''] 8080 (Some 4) None
                           None True False (Some ''AKIA'') (Some ''s3cr3t'')))
       = [([''--conf'', ''spark.driver.memory=4g'', ''--conf'', ''spark.executor.memory=4g'',
            ''--master'', ''local[*]'',
            ''--conf'', ''spark.driver.maxResultSize=0'',
            ''--conf'', ''spark.hadoop.hadoopbam.bam.enable-bai-splitter=true'',
            ''--packages'',
            ''com.amazonaws:aws-java-sdk-pom:1.10.34,org.apache.hadoop:hadoop-aws:2.7.4'',
            ''--conf'', ''spark.hadoop.fs.s3a.impl=org.apache.hadoop.fs.s3a.S3AFileSystem'',
            ''--conf'', ''spark.hadoop.fs.s3a.impl=org.apache.hadoop.fs.s3a.S3AFileSystem'',
            ''--conf'', ''spark.hadoop.fs.s3.awsAccessKeyId=AKIA'',
            ''--conf'', ''spark.hadoop.fs.s3.awsSecretAccessKey=s3cr3t'',
            ''--conf'', ''spark.hadoop.fs.s3n.awsAccessKeyId=AKIA'',
            ''--conf'', ''spark.hadoop.fs.s3n.awsSecretAccessKey=s3cr3t'',
            ''--conf'', ''spark.hadoop.fs.s3a.access.key=AKIA'',
            ''--conf'', ''spark.hadoop.fs.s3a.secret.key=s3cr3t'',
            ''--conf'', ''spark.executorEnv.AWS_ACCESS_KEY_ID=AKIA'',
            ''--conf'', ''spark.executorEnv.AWS_SECRET_ACCESS_KEY=s3cr3t'',
            ''--'', ''coverage''],
           map Arg [''--net=host'', ''--entrypoint=/home/mango/bin/mango-notebook'',
                    ''-e'', ''AWS_ACCESS_KEY_ID=AKIA'', ''-e'', ''AWS_SECRET_ACCESS_KEY=s3cr3t''])]"
  using credentials_contract
          [where succeeds = "\<lambda>_. True" and master_ip = None and arguments = "[''coverage'']"
             and memory = "Some 4" and override_parameters = None and work_dir = None
             and run_local = True and run_mac = False and port = 8080
             and aws_access_key_id = "Some ''AKIA''" and aws_secret_access_key = None
             and access = "''AKIA''" and secret = "''s3cr3t''"]
  by (simp add: truthy_str_def truthy_master_def str_int_4 s3a_defaults_def Let_def)

end
